theory Spec2Isabelle
  imports Complex_Main
begin

section \<open>Python values\<close>

text \<open>
  The handler of \<^verbatim>\<open>lambda/lambda_function.py\<close> receives the event as a Python
  object, reads the request out of it with \<^verbatim>\<open>dict.get\<close> and hands values to the
  extraction library. The values that flow through it are those of JSON: \<^verbatim>\<open>None\<close>,
  booleans, integers, floats, strings, lists and dictionaries with string keys. A
  dictionary is an association list in insertion order, looked up with \<open>map_of\<close>; a
  string is a list of characters; a float is its real value (\<^verbatim>\<open>nan\<close> and the
  infinities are left out). The keys of a dictionary are distinct, as in Python.
\<close>

datatype pyval =
    PNone
  | PBool bool
  | PInt int
  | PFloat real
  | PStr string
  | PList "pyval list"
  | PDict "(string \<times> pyval) list"

text \<open>
  An exception is its class name and \<^verbatim>\<open>str(e)\<close>. The handler's clause
  \<^verbatim>\<open>except Exception as e\<close> matches the instances of \<^verbatim>\<open>Exception\<close> only:
  \<open>Exn\<close> is such an instance, \<open>BaseExn\<close> an exception whose class derives from
  \<^verbatim>\<open>BaseException\<close> outside \<^verbatim>\<open>Exception\<close> (\<^verbatim>\<open>KeyboardInterrupt\<close>,
  \<^verbatim>\<open>SystemExit\<close>, \<^verbatim>\<open>GeneratorExit\<close>).
\<close>

datatype exn =
    Exn string string
  | BaseExn string string

fun is_Exception :: "exn \<Rightarrow> bool" where
  "is_Exception (Exn cls msg) = True"
| "is_Exception (BaseExn cls msg) = False"

fun str_exn :: "exn \<Rightarrow> string" where
  "str_exn (Exn cls msg) = msg"
| "str_exn (BaseExn cls msg) = msg"

subsection \<open>Built-in operations the handler uses\<close>

fun type_name :: "pyval \<Rightarrow> string" where
  "type_name PNone = ''NoneType''"
| "type_name (PBool b) = ''bool''"
| "type_name (PInt n) = ''int''"
| "type_name (PFloat x) = ''float''"
| "type_name (PStr s) = ''str''"
| "type_name (PList xs) = ''list''"
| "type_name (PDict kv) = ''dict''"

text \<open>
  A name between single quotes, as the interpreter's messages write it. The messages of
  the built-in errors below are worded as CPython 3.8 to 3.13 words them.
\<close>

definition quoted :: "string \<Rightarrow> string" where
  "quoted s = CHR 0x27 # s @ [CHR 0x27]"

text \<open>Truth value of an object, as \<^verbatim>\<open>if x\<close> and \<^verbatim>\<open>not x\<close> test it.\<close>

fun truthy :: "pyval \<Rightarrow> bool" where
  "truthy PNone = False"
| "truthy (PBool b) = b"
| "truthy (PInt n) = (n \<noteq> 0)"
| "truthy (PFloat x) = (x \<noteq> 0)"
| "truthy (PStr s) = (s \<noteq> [])"
| "truthy (PList xs) = (xs \<noteq> [])"
| "truthy (PDict kv) = (kv \<noteq> [])"

text \<open>
  \<^verbatim>\<open>d.get(k, default)\<close>. Only a dictionary has the method; on any other object
  the attribute lookup raises \<^verbatim>\<open>AttributeError\<close>.
\<close>

definition dict_get :: "(string \<times> pyval) list \<Rightarrow> string \<Rightarrow> pyval \<Rightarrow> pyval" where
  "dict_get kv k d = (case map_of kv k of None \<Rightarrow> d | Some v \<Rightarrow> v)"

fun py_get :: "pyval \<Rightarrow> string \<Rightarrow> pyval \<Rightarrow> exn + pyval" where
  "py_get (PDict kv) k d = Inr (dict_get kv k d)"
| "py_get v k d =
     Inl (Exn ''AttributeError''
            (quoted (type_name v) @ '' object has no attribute '' @ quoted ''get''))"

text \<open>\<^verbatim>\<open>needle in s\<close> on two strings: \<open>needle\<close> occurs in \<open>s\<close> as a contiguous run.\<close>

fun startswith :: "string \<Rightarrow> string \<Rightarrow> bool" where
  "startswith [] s = True"
| "startswith (p # ps) [] = False"
| "startswith (p # ps) (c # cs) = (p = c \<and> startswith ps cs)"

fun str_contains :: "string \<Rightarrow> string \<Rightarrow> bool" where
  "str_contains needle [] = (needle = [])"
| "str_contains needle (c # cs) = (startswith needle (c # cs) \<or> str_contains needle cs)"

text \<open>
  \<^verbatim>\<open>needle in x\<close> for a string \<open>needle\<close> and any object \<open>x\<close>: substring test on
  a string, membership by equality in a list, key membership in a dictionary, and
  \<^verbatim>\<open>TypeError\<close> on an object that is no container.
\<close>

fun py_contains :: "string \<Rightarrow> pyval \<Rightarrow> exn + bool" where
  "py_contains needle (PStr s) = Inr (str_contains needle s)"
| "py_contains needle (PList xs) = Inr (PStr needle \<in> set xs)"
| "py_contains needle (PDict kv) = Inr (needle \<in> fst ` set kv)"
| "py_contains needle v =
     Inl (Exn ''TypeError'' (''argument of type '' @ quoted (type_name v) @ '' is not iterable''))"

text \<open>\<^verbatim>\<open>len(x)\<close>.\<close>

fun py_len :: "pyval \<Rightarrow> exn + nat" where
  "py_len (PStr s) = Inr (length s)"
| "py_len (PList xs) = Inr (length xs)"
| "py_len (PDict kv) = Inr (length kv)"
| "py_len v =
     Inl (Exn ''TypeError'' (''object of type '' @ quoted (type_name v) @ '' has no len()''))"

text \<open>\<^verbatim>\<open>os.path.join(a, b)\<close> of \<^verbatim>\<open>posixpath\<close>, for two components.\<close>

definition path_join :: "string \<Rightarrow> string \<Rightarrow> string" where
  "path_join a b =
     (if startswith ''/'' b then b
      else if a = [] \<or> last a = CHR ''/'' then a @ b
      else a @ ''/'' @ b)"

section \<open>The response envelope\<close>

text \<open>
  The body of a response is \<^verbatim>\<open>json.dumps(v)\<close> for a value \<open>v\<close> the handler builds.
  The serialiser is the standard library's; the text it produces is kept as the
  constructor \<open>json_dumps\<close> applied to the value, so two bodies are equal exactly when
  the serialised values are.
\<close>

datatype json_text = json_dumps pyval

record response =
  statusCode :: int
  headers :: "(string \<times> string) list"
  body :: json_text

definition json_headers :: "(string \<times> string) list" where
  "json_headers = [(''Content-Type'', ''application/json'')]"

text \<open>
  The four error returns of the handler are the same dictionary literal, with the
  status code and the message changing.
\<close>

definition error_response :: "int \<Rightarrow> string \<Rightarrow> response" where
  "error_response code msg =
     \<lparr>statusCode = code, headers = json_headers,
      body = json_dumps (PDict [(''error'', PStr msg)])\<rparr>"

section \<open>The world outside the handler\<close>

text \<open>
  What the handler does to the outside is recorded in order: the temporary directory
  that \<^verbatim>\<open>tempfile.TemporaryDirectory()\<close> creates and removes, and the calls into the
  extraction library with their arguments (the options dictionary given to
  \<^verbatim>\<open>yt_dlp.YoutubeDL\<close>, then the arguments of the method called on it).
\<close>

datatype effect =
    TempDirCreated string
  | TempDirRemoved string
  | CallExtractInfo pyval pyval bool
  | CallDownload pyval "pyval list"

record world =
  tmp_dirs :: "string set"
  effects :: "effect list"

text \<open>
  What the outside answers is a parameter of the model, one field per external call:
  \<^item> \<open>e_loads\<close>: \<^verbatim>\<open>json.loads\<close> on a string;
  \<^item> \<open>e_extract_info opts url download\<close>:
    \<^verbatim>\<open>with yt_dlp.YoutubeDL(opts) as ydl: ydl.extract_info(url, download=download)\<close>;
  \<^item> \<open>e_mkdtemp\<close>: the directory \<^verbatim>\<open>tempfile.TemporaryDirectory()\<close> creates, or the
    exception it raises;
  \<^item> \<open>e_download opts urls\<close>:
    \<^verbatim>\<open>with yt_dlp.YoutubeDL(opts) as ydl: ydl.download(urls)\<close>, \<open>None\<close> when it
    completes and the exception otherwise;
  \<^item> \<open>e_listdir\<close>: \<^verbatim>\<open>os.listdir\<close> after the download;
  \<^item> \<open>e_read\<close>: \<^verbatim>\<open>open(path, 'rb')\<close> and \<^verbatim>\<open>f.read()\<close>;
  \<^item> \<open>e_b64encode\<close>: \<^verbatim>\<open>base64.b64encode(data).decode('utf-8')\<close>;
  \<^item> \<open>e_str\<close>: \<^verbatim>\<open>str(x)\<close> of an object that is not a string, as an f-string
    formats it.
  Removing the temporary directory when its \<^verbatim>\<open>with\<close> block is left is taken to
  succeed.
\<close>

record env =
  e_loads :: "string \<Rightarrow> exn + pyval"
  e_extract_info :: "pyval \<Rightarrow> pyval \<Rightarrow> bool \<Rightarrow> exn + pyval"
  e_mkdtemp :: "exn + string"
  e_download :: "pyval \<Rightarrow> pyval list \<Rightarrow> exn option"
  e_listdir :: "string \<Rightarrow> exn + string list"
  e_read :: "string \<Rightarrow> exn + string"
  e_b64encode :: "string \<Rightarrow> exn + string"
  e_str :: "pyval \<Rightarrow> string"

definition json_loads :: "env \<Rightarrow> pyval \<Rightarrow> exn + pyval" where
  "json_loads env v =
     (case v of
        PStr s \<Rightarrow> e_loads env s
      | _ \<Rightarrow> Inl (Exn ''TypeError''
                 (''the JSON object must be str, bytes or bytearray, not '' @ type_name v)))"

definition py_format :: "env \<Rightarrow> pyval \<Rightarrow> string" where
  "py_format env v = (case v of PStr s \<Rightarrow> s | _ \<Rightarrow> e_str env v)"

section \<open>get_video_info\<close>

definition info_opts :: pyval where
  "info_opts = PDict [(''quiet'', PBool True), (''no_warnings'', PBool True)]"

text \<open>The dictionary returned inside the \<^verbatim>\<open>with\<close> block, from the library's \<open>info\<close>.\<close>

definition info_response :: "pyval \<Rightarrow> exn + response" where
  "info_response info =
     (case py_get info ''title'' (PStr ''Unknown'') of Inl e \<Rightarrow> Inl e | Inr title \<Rightarrow>
      case py_get info ''thumbnail'' PNone of Inl e \<Rightarrow> Inl e | Inr thumbnail \<Rightarrow>
      case py_get info ''duration'' PNone of Inl e \<Rightarrow> Inl e | Inr duration \<Rightarrow>
      case py_get info ''uploader'' PNone of Inl e \<Rightarrow> Inl e | Inr uploader \<Rightarrow>
      case py_get info ''view_count'' PNone of Inl e \<Rightarrow> Inl e | Inr view_count \<Rightarrow>
      case py_get info ''formats'' (PList []) of Inl e \<Rightarrow> Inl e | Inr formats \<Rightarrow>
      case py_len formats of Inl e \<Rightarrow> Inl e | Inr n \<Rightarrow>
        Inr \<lparr>statusCode = 200, headers = json_headers,
             body = json_dumps (PDict
               [(''title'', title),
                (''thumbnail'', thumbnail),
                (''duration'', duration),
                (''uploader'', uploader),
                (''view_count'', view_count),
                (''formats_available'', PInt (int n))])\<rparr>)"

definition get_video_info :: "env \<Rightarrow> pyval \<Rightarrow> world \<Rightarrow> (exn + response) \<times> world" where
  "get_video_info env url w =
     (let ydl_opts = info_opts;
          w1 = w\<lparr>effects := effects w @ [CallExtractInfo ydl_opts url False]\<rparr>
      in case e_extract_info env ydl_opts url False of
           Inl e \<Rightarrow> (Inl e, w1)
         | Inr info \<Rightarrow> (info_response info, w1))"

section \<open>download_video\<close>

definition download_opts :: "pyval \<Rightarrow> string \<Rightarrow> pyval" where
  "download_opts format_type output_path =
     (if format_type = PStr ''mp3'' then
        PDict [(''format'', PStr ''bestaudio/best''),
               (''outtmpl'', PStr output_path),
               (''postprocessors'',
                  PList [PDict [(''key'', PStr ''FFmpegExtractAudio''),
                                (''preferredcodec'', PStr ''mp3''),
                                (''preferredquality'', PStr ''192'')]]),
               (''quiet'', PBool True)]
      else
        PDict [(''format'', PStr ''best[ext=mp4]/best''),
               (''outtmpl'', PStr output_path),
               (''quiet'', PBool True)])"

definition content_type_of :: "pyval \<Rightarrow> string" where
  "content_type_of format_type =
     (if format_type = PStr ''mp4'' then ''video/mp4'' else ''audio/mpeg'')"

text \<open>The body of the \<^verbatim>\<open>with tempfile.TemporaryDirectory() as temp_dir\<close> block.\<close>

definition download_in_dir ::
  "env \<Rightarrow> string \<Rightarrow> pyval \<Rightarrow> pyval \<Rightarrow> world \<Rightarrow> (exn + response) \<times> world" where
  "download_in_dir env temp_dir url format_type w =
     (let output_path = path_join temp_dir (''video.'' @ py_format env format_type);
          ydl_opts = download_opts format_type output_path;
          w1 = w\<lparr>effects := effects w @ [CallDownload ydl_opts [url]]\<rparr>
      in case e_download env ydl_opts [url] of
           Some e \<Rightarrow> (Inl e, w1)
         | None \<Rightarrow>
            (case e_listdir env temp_dir of
               Inl e \<Rightarrow> (Inl e, w1)
             | Inr files \<Rightarrow>
                (case files of
                   [] \<Rightarrow> (Inl (Exn ''Exception'' ''Download failed - no file created''), w1)
                 | file0 # _ \<Rightarrow>
                    (let downloaded_file = path_join temp_dir file0
                     in case e_read env downloaded_file of
                          Inl e \<Rightarrow> (Inl e, w1)
                        | Inr file_data \<Rightarrow>
                           (case e_b64encode env file_data of
                              Inl e \<Rightarrow> (Inl e, w1)
                            | Inr file_base64 \<Rightarrow>
                               (Inr \<lparr>statusCode = 200, headers = json_headers,
                                     body = json_dumps (PDict
                                       [(''file_data'', PStr file_base64),
                                        (''filename'', PStr file0),
                                        (''content_type'',
                                           PStr (content_type_of format_type))])\<rparr>,
                                w1))))))"

text \<open>
  The \<^verbatim>\<open>with\<close> statement: the directory is created, the block runs, and the
  directory is removed however the block is left, before the result or the
  exception goes on to the caller.
\<close>

definition download_video ::
  "env \<Rightarrow> pyval \<Rightarrow> pyval \<Rightarrow> world \<Rightarrow> (exn + response) \<times> world" where
  "download_video env url format_type w =
     (case e_mkdtemp env of
        Inl e \<Rightarrow> (Inl e, w)
      | Inr temp_dir \<Rightarrow>
         (let w1 = w\<lparr>tmp_dirs := insert temp_dir (tmp_dirs w),
                      effects := effects w @ [TempDirCreated temp_dir]\<rparr>;
              (r, w2) = download_in_dir env temp_dir url format_type w1
          in (r, w2\<lparr>tmp_dirs := tmp_dirs w2 - {temp_dir},
                     effects := effects w2 @ [TempDirRemoved temp_dir]\<rparr>)))"

section \<open>lambda_handler\<close>

text \<open>
  Line 11: \<^verbatim>\<open>json.loads(event['body']) if event.get('body') else event\<close>. When
  \<^verbatim>\<open>event.get('body')\<close> is true the key is there, and \<^verbatim>\<open>event['body']\<close> is the
  same value.
\<close>

definition parse_body :: "env \<Rightarrow> pyval \<Rightarrow> exn + pyval" where
  "parse_body env event =
     (case py_get event ''body'' PNone of
        Inl e \<Rightarrow> Inl e
      | Inr b \<Rightarrow> if truthy b then json_loads env b else Inr event)"

text \<open>\<^verbatim>\<open>'youtube.com' in url or 'youtu.be' in url\<close>, the second test only when the first is false.\<close>

definition is_youtube_url :: "pyval \<Rightarrow> exn + bool" where
  "is_youtube_url url =
     (case py_contains ''youtube.com'' url of
        Inl e \<Rightarrow> Inl e
      | Inr found \<Rightarrow> if found then Inr True else py_contains ''youtu.be'' url)"

text \<open>Lines 31 to 40: the \<^verbatim>\<open>if\<close>/\<^verbatim>\<open>elif\<close>/\<^verbatim>\<open>else\<close> on \<open>action\<close>.\<close>

definition dispatch ::
  "env \<Rightarrow> pyval \<Rightarrow> pyval \<Rightarrow> pyval \<Rightarrow> world \<Rightarrow> (exn + response) \<times> world" where
  "dispatch env action url format_type w =
     (if action = PStr ''info'' then get_video_info env url w
      else if action = PStr ''download'' then download_video env url format_type w
      else (Inr (error_response 400 ''Invalid action''), w))"

text \<open>The \<^verbatim>\<open>try\<close> block (\<open>body'\<close> is the source's variable \<^verbatim>\<open>body\<close>).\<close>

definition lambda_handler_try :: "env \<Rightarrow> pyval \<Rightarrow> world \<Rightarrow> (exn + response) \<times> world" where
  "lambda_handler_try env event w =
     (case parse_body env event of Inl e \<Rightarrow> (Inl e, w) | Inr body' \<Rightarrow>
      case py_get body' ''url'' PNone of Inl e \<Rightarrow> (Inl e, w) | Inr url \<Rightarrow>
      case py_get body' ''action'' (PStr ''info'') of Inl e \<Rightarrow> (Inl e, w) | Inr action \<Rightarrow>
      case py_get body' ''format'' (PStr ''mp4'') of Inl e \<Rightarrow> (Inl e, w) | Inr format_type \<Rightarrow>
        if \<not> truthy url then (Inr (error_response 400 ''URL is required''), w)
        else
          (case is_youtube_url url of
             Inl e \<Rightarrow> (Inl e, w)
           | Inr valid \<Rightarrow>
              if \<not> valid then (Inr (error_response 400 ''Invalid YouTube URL''), w)
              else dispatch env action url format_type w))"

text \<open>
  The handler: \<^verbatim>\<open>except Exception as e\<close> turns an instance of \<^verbatim>\<open>Exception\<close>
  into the 500 response; any other exception leaves the handler. The \<open>context\<close>
  argument is never read and is left out.
\<close>

definition lambda_handler :: "env \<Rightarrow> pyval \<Rightarrow> world \<Rightarrow> (exn + response) \<times> world" where
  "lambda_handler env event w =
     (case lambda_handler_try env event w of
        (Inr r, w') \<Rightarrow> (Inr r, w')
      | (Inl e, w') \<Rightarrow>
          if is_Exception e then (Inr (error_response 500 (str_exn e)), w')
          else (Inl e, w'))"

section \<open>Concrete collaborators\<close>

text \<open>
  A stubbed outside for running the handler on concrete requests: the library answers
  the metadata of scenario A and downloads one file; nothing fails.
\<close>

definition scenario_info :: pyval where
  "scenario_info =
     PDict [(''title'', PStr ''T''),
            (''thumbnail'', PStr ''th''),
            (''duration'', PInt 120),
            (''uploader'', PStr ''U''),
            (''view_count'', PInt 5),
            (''formats'', PList [PInt 1, PInt 2, PInt 3])]"

definition stub_env :: env where
  "stub_env =
     \<lparr>e_loads = (\<lambda>s. Inl (Exn ''JSONDecodeError'' ''Expecting value: line 1 column 1 (char 0)'')),
      e_extract_info = (\<lambda>opts url download. Inr scenario_info),
      e_mkdtemp = Inr ''/tmp/tmpk3x9q2ab'',
      e_download = (\<lambda>opts urls. None),
      e_listdir = (\<lambda>d. Inr [''video.mp4'']),
      e_read = (\<lambda>p. Inr ''data''),
      e_b64encode = (\<lambda>bs. Inr ''ZGF0YQ==''),
      e_str = (\<lambda>v. ''None'')\<rparr>"

definition world0 :: world where
  "world0 = \<lparr>tmp_dirs = {}, effects = []\<rparr>"

definition request :: "string \<Rightarrow> string \<Rightarrow> pyval" where
  "request url action = PDict [(''url'', PStr url), (''action'', PStr action)]"

section \<open>Facts about the built-in operations\<close>

text \<open>
  The substring test is the usual one: \<open>needle\<close> occurs in \<open>h\<close> exactly when \<open>h\<close>
  splits into a part before it, \<open>needle\<close> itself and a part after it.
\<close>

lemma startswith_iff: "startswith p s \<longleftrightarrow> (\<exists>t. s = p @ t)"
  by (induction p s rule: startswith.induct) auto

lemma str_contains_iff: "str_contains n h \<longleftrightarrow> (\<exists>p t. h = p @ n @ t)"
proof (induction h)
  case Nil
  then show ?case by simp
next
  case (Cons c cs)
  show ?case
  proof
    assume "str_contains n (c # cs)"
    then consider "startswith n (c # cs)" | "str_contains n cs" by auto
    then show "\<exists>p t. c # cs = p @ n @ t"
    proof cases
      case 1
      then obtain t where "c # cs = n @ t" by (auto simp: startswith_iff)
      then have "c # cs = [] @ n @ t" by simp
      then show ?thesis by blast
    next
      case 2
      then obtain p t where "cs = p @ n @ t" using Cons.IH by blast
      then have "c # cs = (c # p) @ n @ t" by simp
      then show ?thesis by blast
    qed
  next
    assume "\<exists>p t. c # cs = p @ n @ t"
    then obtain p t where pt: "c # cs = p @ n @ t" by blast
    show "str_contains n (c # cs)"
    proof (cases p)
      case Nil
      with pt have "startswith n (c # cs)" by (auto simp: startswith_iff)
      then show ?thesis by simp
    next
      case (Cons a p')
      with pt have "cs = p' @ n @ t" by simp
      then have "str_contains n cs" using Cons.IH by blast
      then show ?thesis by simp
    qed
  qed
qed


section \<open>The handler, step by step\<close>

text \<open>
  Once line 11 has produced a dictionary, the three \<^verbatim>\<open>get\<close> calls cannot fail and
  the \<^verbatim>\<open>try\<close> block is the chain of checks on \<open>url\<close> followed by the dispatch.
\<close>

lemma try_on_dict:
  assumes "parse_body env event = Inr (PDict kv)"
  shows "lambda_handler_try env event w =
     (if \<not> truthy (dict_get kv ''url'' PNone)
      then (Inr (error_response 400 ''URL is required''), w)
      else
        (case is_youtube_url (dict_get kv ''url'' PNone) of
           Inl e \<Rightarrow> (Inl e, w)
         | Inr valid \<Rightarrow>
            if \<not> valid then (Inr (error_response 400 ''Invalid YouTube URL''), w)
            else dispatch env (dict_get kv ''action'' (PStr ''info''))
                   (dict_get kv ''url'' PNone) (dict_get kv ''format'' (PStr ''mp4'')) w))"
  using assms by (simp add: lambda_handler_try_def)

text \<open>The \<^verbatim>\<open>except\<close> clause, seen from the result and from the world.\<close>

lemma handler_of_response:
  "lambda_handler_try env event w = (Inr r, w') \<Longrightarrow> lambda_handler env event w = (Inr r, w')"
  by (simp add: lambda_handler_def)

lemma handler_of_exception:
  "lambda_handler_try env event w = (Inl e, w') \<Longrightarrow> is_Exception e \<Longrightarrow>
   lambda_handler env event w = (Inr (error_response 500 (str_exn e)), w')"
  by (simp add: lambda_handler_def)

lemma handler_fst:
  "fst (lambda_handler env event w) =
     (case fst (lambda_handler_try env event w) of
        Inr r \<Rightarrow> Inr r
      | Inl e \<Rightarrow> if is_Exception e then Inr (error_response 500 (str_exn e)) else Inl e)"
  by (simp add: lambda_handler_def split: prod.splits sum.splits)

lemma handler_snd: "snd (lambda_handler env event w) = snd (lambda_handler_try env event w)"
  by (simp add: lambda_handler_def split: prod.splits sum.splits)

lemma is_youtube_url_str:
  "is_youtube_url (PStr u) = Inr (str_contains ''youtube.com'' u \<or> str_contains ''youtu.be'' u)"
  by (simp add: is_youtube_url_def)

text \<open>Both paths answer 200 when they return; the world records what they did.\<close>

lemma info_response_status: "info_response info = Inr r \<Longrightarrow> statusCode r = 200"
  by (cases info) (auto simp: info_response_def split: sum.splits)

lemma get_video_info_status: "get_video_info env url w = (Inr r, w') \<Longrightarrow> statusCode r = 200"
  by (auto simp: get_video_info_def Let_def info_response_status split: sum.splits)

lemma get_video_info_world:
  "snd (get_video_info env url w) = w\<lparr>effects := effects w @ [CallExtractInfo info_opts url False]\<rparr>"
  by (simp add: get_video_info_def Let_def split: sum.splits)

lemma download_in_dir_world:
  "snd (download_in_dir env d url fmt w) =
     w\<lparr>effects := effects w @
        [CallDownload (download_opts fmt (path_join d (''video.'' @ py_format env fmt))) [url]]\<rparr>"
  by (simp add: download_in_dir_def Let_def split: option.splits sum.splits list.splits)

lemma download_in_dir_status:
  "download_in_dir env d url fmt w = (Inr r, w') \<Longrightarrow> statusCode r = 200"
  by (auto simp: download_in_dir_def Let_def split: option.splits sum.splits list.splits)

lemma download_video_result:
  "e_mkdtemp env = Inr d \<Longrightarrow>
   fst (download_video env url fmt w) =
     fst (download_in_dir env d url fmt
            (w\<lparr>tmp_dirs := insert d (tmp_dirs w), effects := effects w @ [TempDirCreated d]\<rparr>))"
  by (simp add: download_video_def Let_def split: prod.splits)

lemma download_video_status:
  "download_video env url fmt w = (Inr r, w') \<Longrightarrow> statusCode r = 200"
  by (auto simp: download_video_def Let_def download_in_dir_status split: sum.splits prod.splits)

lemma download_in_dir_empty:
  assumes "e_download env (download_opts fmt (path_join d (''video.'' @ py_format env fmt))) [url] = None"
      and "e_listdir env d = Inr []"
  shows "fst (download_in_dir env d url fmt w) =
           Inl (Exn ''Exception'' ''Download failed - no file created'')"
  using assms by (simp add: download_in_dir_def Let_def)

text \<open>The content type that line 116 writes into the download response.\<close>

lemma content_type_of_cases:
  "content_type_of (PStr ''mp3'') = ''audio/mpeg''"
  "content_type_of (PStr ''mp4'') = ''video/mp4''"
  "fmt \<noteq> PStr ''mp4'' \<Longrightarrow> content_type_of fmt = ''audio/mpeg''"
  by (simp_all add: content_type_of_def)

lemma download_in_dir_content_type:
  assumes "download_in_dir env d url fmt w = (Inr r, w')"
  shows "\<exists>data name. body r = json_dumps (PDict
           [(''file_data'', PStr data), (''filename'', PStr name),
            (''content_type'', PStr (content_type_of fmt))])"
  using assms
  by (auto simp: download_in_dir_def Let_def split: option.splits sum.splits list.splits)


lemma extract_info_raises:
  "e_extract_info env info_opts url False = Inl e \<Longrightarrow> fst (get_video_info env url w) = Inl e"
  by (simp add: get_video_info_def Let_def)




text \<open>A 400 answer of the dispatch, or any answer of the \<^verbatim>\<open>try\<close> block, tells how it was reached.\<close>

lemma dispatch_status_400:
  assumes "fst (dispatch env action url fmt w) = Inr r" and "statusCode r = 400"
  shows "action \<noteq> PStr ''info'' \<and> action \<noteq> PStr ''download''"
proof (intro conjI notI)
  assume "action = PStr ''info''"
  then have "get_video_info env url w = (Inr r, snd (get_video_info env url w))"
    using assms(1) by (simp add: dispatch_def prod_eq_iff)
  then have "statusCode r = 200" by (rule get_video_info_status)
  with assms(2) show False by simp
next
  assume "action = PStr ''download''"
  then have "download_video env url fmt w = (Inr r, snd (download_video env url fmt w))"
    using assms(1) by (simp add: dispatch_def prod_eq_iff)
  then have "statusCode r = 200" by (rule download_video_status)
  with assms(2) show False by simp
qed

lemma try_returns_on_dict:
  assumes "fst (lambda_handler_try env event w) = Inr r"
  shows "\<exists>kv. parse_body env event = Inr (PDict kv)"
proof (cases "parse_body env event")
  case (Inl e)
  with assms show ?thesis by (simp add: lambda_handler_try_def)
next
  case (Inr b)
  with assms show ?thesis
    by (cases b) (simp_all add: lambda_handler_try_def)
qed





section \<open>The claims\<close>

text \<open>
  C1. A download request with \<open>format = 'mp3'\<close> answers content type \<open>audio/mpeg\<close>
  and any other format is to answer \<open>video/mp4\<close>. The handler is run here on a
  download request with \<open>format = 'webm'\<close>, the library writing \<open>video.webm\<close>: the
  options given to the library are those of the \<^verbatim>\<open>else:  # mp4\<close> branch, and the
  response says \<open>audio/mpeg\<close>.
\<close>

theorem download_content_type_other_format:
  "fst (lambda_handler (stub_env\<lparr>e_listdir := (\<lambda>d. Inr [''video.webm''])\<rparr>)
          (PDict [(''url'', PStr ''https://youtu.be/abc123''),
                  (''action'', PStr ''download''),
                  (''format'', PStr ''webm'')]) world0) =
     Inr \<lparr>statusCode = 200, headers = [(''Content-Type'', ''application/json'')],
          body = json_dumps (PDict
            [(''file_data'', PStr ''ZGF0YQ==''),
             (''filename'', PStr ''video.webm''),
             (''content_type'', PStr ''audio/mpeg'')])\<rparr>
   \<and> download_opts (PStr ''webm'') ''/tmp/tmpk3x9q2ab/video.webm'' =
       PDict [(''format'', PStr ''best[ext=mp4]/best''),
              (''outtmpl'', PStr ''/tmp/tmpk3x9q2ab/video.webm''),
              (''quiet'', PBool True)]"
  by (simp add: lambda_handler_def lambda_handler_try_def parse_body_def dict_get_def
      is_youtube_url_def dispatch_def download_video_def download_in_dir_def download_opts_def
      content_type_of_def path_join_def py_format_def stub_env_def world0_def json_headers_def)

text \<open>
  C2. Scenario A: on the event \<open>{"url": "https://youtu.be/abc123", "action": "info"}\<close>,
  when the library answers title \<open>T\<close>, thumbnail \<open>th\<close>, duration 120, uploader \<open>U\<close>,
  view count 5 and a list of formats, the handler answers 200 and the body is the
  JSON text of those five fields and \<open>formats_available\<close>, the length of the list of
  formats (3 for \<open>[1, 2, 3]\<close>).
\<close>

theorem scenario_A:
  assumes "e_extract_info env info_opts (PStr ''https://youtu.be/abc123'') False =
             Inr (PDict [(''title'', PStr ''T''),
                         (''thumbnail'', PStr ''th''),
                         (''duration'', PInt 120),
                         (''uploader'', PStr ''U''),
                         (''view_count'', PInt 5),
                         (''formats'', PList fs)])"
  shows "fst (lambda_handler env
                (PDict [(''url'', PStr ''https://youtu.be/abc123''), (''action'', PStr ''info'')]) w) =
           Inr \<lparr>statusCode = 200, headers = [(''Content-Type'', ''application/json'')],
                body = json_dumps (PDict
                  [(''title'', PStr ''T''),
                   (''thumbnail'', PStr ''th''),
                   (''duration'', PInt 120),
                   (''uploader'', PStr ''U''),
                   (''view_count'', PInt 5),
                   (''formats_available'', PInt (int (length fs)))])\<rparr>"
proof -
  let ?event = "PDict [(''url'', PStr ''https://youtu.be/abc123''), (''action'', PStr ''info'')]"
  have parsed: "parse_body env ?event = Inr ?event"
    by (simp add: parse_body_def dict_get_def)
  have valid: "is_youtube_url (PStr ''https://youtu.be/abc123'') = Inr True"
    by (simp add: is_youtube_url_def)
  have "lambda_handler_try env ?event w =
          get_video_info env (PStr ''https://youtu.be/abc123'') w"
    by (simp add: try_on_dict [OF parsed] dict_get_def valid dispatch_def)
  moreover have "fst (get_video_info env (PStr ''https://youtu.be/abc123'') w) =
      Inr \<lparr>statusCode = 200, headers = [(''Content-Type'', ''application/json'')],
                body = json_dumps (PDict
                  [(''title'', PStr ''T''),
                   (''thumbnail'', PStr ''th''),
                   (''duration'', PInt 120),
                   (''uploader'', PStr ''U''),
                   (''view_count'', PInt 5),
                   (''formats_available'', PInt (int (length fs)))])\<rparr>"
    using assms by (simp add: get_video_info_def info_response_def dict_get_def json_headers_def)
  ultimately show ?thesis
    by (simp add: handler_fst)
qed

theorem scenario_A_witness:
  "fst (lambda_handler stub_env (request ''https://youtu.be/abc123'' ''info'') world0) =
     Inr \<lparr>statusCode = 200, headers = [(''Content-Type'', ''application/json'')],
          body = json_dumps (PDict
            [(''title'', PStr ''T''),
             (''thumbnail'', PStr ''th''),
             (''duration'', PInt 120),
             (''uploader'', PStr ''U''),
             (''view_count'', PInt 5),
             (''formats_available'', PInt 3)])\<rparr>"
proof -
  have stub: "e_extract_info stub_env info_opts (PStr ''https://youtu.be/abc123'') False =
             Inr (PDict [(''title'', PStr ''T''),
                         (''thumbnail'', PStr ''th''),
                         (''duration'', PInt 120),
                         (''uploader'', PStr ''U''),
                         (''view_count'', PInt 5),
                         (''formats'', PList [PInt 1, PInt 2, PInt 3])])"
    by (simp add: stub_env_def scenario_info_def)
  show ?thesis
    using scenario_A [OF stub, of world0] by (simp add: request_def)
qed

text \<open>
  C3. A download request (url present and accepted, action \<open>download\<close>) for which
  the library's download call completes and the listing of the temporary directory
  is empty answers 500 with the error \<open>Download failed - no file created\<close>.
\<close>

theorem download_no_file_created:
  assumes "parse_body env event = Inr (PDict kv)"
      and "dict_get kv ''url'' PNone = url"
      and "truthy url"
      and "is_youtube_url url = Inr True"
      and "dict_get kv ''action'' (PStr ''info'') = PStr ''download''"
      and "dict_get kv ''format'' (PStr ''mp4'') = fmt"
      and "e_mkdtemp env = Inr d"
      and "e_download env (download_opts fmt (path_join d (''video.'' @ py_format env fmt))) [url] = None"
      and "e_listdir env d = Inr []"
  shows "fst (lambda_handler env event w) =
           Inr \<lparr>statusCode = 500, headers = [(''Content-Type'', ''application/json'')],
                body = json_dumps (PDict [(''error'', PStr ''Download failed - no file created'')])\<rparr>"
proof -
  have "lambda_handler_try env event w = download_video env url fmt w"
    using assms(2-6) by (simp add: try_on_dict [OF assms(1)] dispatch_def)
  moreover have "fst (download_video env url fmt w) =
      Inl (Exn ''Exception'' ''Download failed - no file created'')"
    by (simp add: download_video_result [OF assms(7)] download_in_dir_empty [OF assms(8,9)])
  ultimately show ?thesis
    by (simp add: handler_fst error_response_def json_headers_def)
qed

theorem download_no_file_created_witness:
  "fst (lambda_handler (stub_env\<lparr>e_listdir := (\<lambda>d. Inr [])\<rparr>)
          (request ''https://www.youtube.com/watch?v=abc123'' ''download'') world0) =
     Inr \<lparr>statusCode = 500, headers = [(''Content-Type'', ''application/json'')],
          body = json_dumps (PDict [(''error'', PStr ''Download failed - no file created'')])\<rparr>"
proof -
  let ?env = "stub_env\<lparr>e_listdir := (\<lambda>d. Inr [])\<rparr>"
  let ?url = "''https://www.youtube.com/watch?v=abc123''"
  have h1: "parse_body ?env (request ?url ''download'') =
      Inr (PDict [(''url'', PStr ?url), (''action'', PStr ''download'')])"
    by (simp add: parse_body_def request_def dict_get_def)
  have h2: "dict_get [(''url'', PStr ?url), (''action'', PStr ''download'')] ''url'' PNone = PStr ?url"
    by (simp add: dict_get_def)
  have h3: "truthy (PStr ?url)" by simp
  have h4: "is_youtube_url (PStr ?url) = Inr True" by (simp add: is_youtube_url_def)
  have h5: "dict_get [(''url'', PStr ?url), (''action'', PStr ''download'')] ''action'' (PStr ''info'')
      = PStr ''download''"
    by (simp add: dict_get_def)
  have h6: "dict_get [(''url'', PStr ?url), (''action'', PStr ''download'')] ''format'' (PStr ''mp4'')
      = PStr ''mp4''"
    by (simp add: dict_get_def)
  have h7: "e_mkdtemp ?env = Inr ''/tmp/tmpk3x9q2ab''" by (simp add: stub_env_def)
  have h8: "e_download ?env (download_opts (PStr ''mp4'')
      (path_join ''/tmp/tmpk3x9q2ab'' (''video.'' @ py_format ?env (PStr ''mp4'')))) [PStr ?url] = None"
    by (simp add: stub_env_def)
  have h9: "e_listdir ?env ''/tmp/tmpk3x9q2ab'' = Inr []" by (simp add: stub_env_def)
  show ?thesis
    using download_no_file_created [OF h1 h2 h3 h4 h5 h6 h7 h8 h9, of world0] by simp
qed

text \<open>
  C4. However \<open>download_video\<close> is left (the response, the empty directory, an
  exception of the library, of reading or of encoding), the temporary directory it
  created is gone when it exits: the directories that exist afterwards are those that
  existed before without it, and its removal is the last thing recorded. When the
  directory could not be created, nothing has changed.
\<close>

theorem temp_dir_removed:
  "(case e_mkdtemp env of
      Inl e \<Rightarrow> download_video env url fmt w = (Inl e, w)
    | Inr d \<Rightarrow>
        d \<notin> tmp_dirs (snd (download_video env url fmt w)) \<and>
        tmp_dirs (snd (download_video env url fmt w)) = tmp_dirs w - {d} \<and>
        effects (snd (download_video env url fmt w)) =
          effects w @
          [TempDirCreated d,
           CallDownload (download_opts fmt (path_join d (''video.'' @ py_format env fmt))) [url],
           TempDirRemoved d])"
proof (cases "e_mkdtemp env")
  case (Inl e)
  then show ?thesis by (simp add: download_video_def)
next
  case (Inr d)
  let ?w1 = "w\<lparr>tmp_dirs := insert d (tmp_dirs w), effects := effects w @ [TempDirCreated d]\<rparr>"
  obtain r w2 where run: "download_in_dir env d url fmt ?w1 = (r, w2)"
    by (cases "download_in_dir env d url fmt ?w1")
  have "w2 = snd (download_in_dir env d url fmt ?w1)" using run by simp
  then have w2: "w2 = ?w1\<lparr>effects := effects ?w1 @
        [CallDownload (download_opts fmt (path_join d (''video.'' @ py_format env fmt))) [url]]\<rparr>"
    by (simp only: download_in_dir_world)
  have "snd (download_video env url fmt w) =
          w2\<lparr>tmp_dirs := tmp_dirs w2 - {d}, effects := effects w2 @ [TempDirRemoved d]\<rparr>"
    using Inr run by (simp add: download_video_def)
  with Inr w2 show ?thesis by simp
qed


theorem temp_dir_removed_witness:
  "fst (download_video
          (stub_env\<lparr>e_download := (\<lambda>opts urls. Some (Exn ''DownloadError'' ''Video unavailable''))\<rparr>)
          (PStr ''https://youtu.be/abc123'') (PStr ''mp4'')
          \<lparr>tmp_dirs = {''/tmp/other''}, effects = []\<rparr>) =
     Inl (Exn ''DownloadError'' ''Video unavailable'')
   \<and> tmp_dirs (snd (download_video
          (stub_env\<lparr>e_download := (\<lambda>opts urls. Some (Exn ''DownloadError'' ''Video unavailable''))\<rparr>)
          (PStr ''https://youtu.be/abc123'') (PStr ''mp4'')
          \<lparr>tmp_dirs = {''/tmp/other''}, effects = []\<rparr>)) = {''/tmp/other''}
   \<and> effects (snd (download_video
          (stub_env\<lparr>e_download := (\<lambda>opts urls. Some (Exn ''DownloadError'' ''Video unavailable''))\<rparr>)
          (PStr ''https://youtu.be/abc123'') (PStr ''mp4'')
          \<lparr>tmp_dirs = {''/tmp/other''}, effects = []\<rparr>)) =
       [TempDirCreated ''/tmp/tmpk3x9q2ab'',
        CallDownload (PDict [(''format'', PStr ''best[ext=mp4]/best''),
                             (''outtmpl'', PStr ''/tmp/tmpk3x9q2ab/video.mp4''),
                             (''quiet'', PBool True)])
                     [PStr ''https://youtu.be/abc123''],
        TempDirRemoved ''/tmp/tmpk3x9q2ab'']"
proof -
  let ?env = "stub_env\<lparr>e_download := (\<lambda>opts urls. Some (Exn ''DownloadError'' ''Video unavailable''))\<rparr>"
  let ?w = "\<lparr>tmp_dirs = {''/tmp/other''}, effects = []\<rparr>"
  have dir: "e_mkdtemp ?env = Inr ''/tmp/tmpk3x9q2ab''" by (simp add: stub_env_def)
  have raised: "fst (download_video ?env (PStr ''https://youtu.be/abc123'') (PStr ''mp4'') ?w) =
      Inl (Exn ''DownloadError'' ''Video unavailable'')"
    by (simp add: download_video_def download_in_dir_def Let_def stub_env_def)
  show ?thesis
    using temp_dir_removed [of ?env "PStr ''https://youtu.be/abc123''" "PStr ''mp4''" ?w] raised
    by (simp add: dir download_opts_def path_join_def py_format_def)
qed

text \<open>
  C5. A request with a url that is present and accepted and with action \<open>info\<close>,
  written or defaulted, downloads nothing: the only thing the handler does outside is
  one call of \<open>extract_info\<close> with \<open>download=False\<close>; no temporary directory is
  created and the library's \<open>download\<close> is not called.
\<close>

theorem info_never_downloads:
  assumes "parse_body env event = Inr (PDict kv)"
      and "dict_get kv ''url'' PNone = url"
      and "truthy url"
      and "is_youtube_url url = Inr True"
      and "map_of kv ''action'' = None \<or> map_of kv ''action'' = Some (PStr ''info'')"
  shows "tmp_dirs (snd (lambda_handler env event w)) = tmp_dirs w \<and>
         effects (snd (lambda_handler env event w)) =
           effects w @
           [CallExtractInfo (PDict [(''quiet'', PBool True), (''no_warnings'', PBool True)])
              url False]"
proof -
  have "dict_get kv ''action'' (PStr ''info'') = PStr ''info''"
    using assms(5) by (auto simp: dict_get_def)
  then have "lambda_handler_try env event w = get_video_info env url w"
    using assms(2-4) by (simp add: try_on_dict [OF assms(1)] dispatch_def)
  then have "snd (lambda_handler env event w) =
      w\<lparr>effects := effects w @ [CallExtractInfo info_opts url False]\<rparr>"
    by (simp add: handler_snd get_video_info_world)
  then show ?thesis by (simp add: info_opts_def)
qed

theorem info_never_downloads_witness:
  "tmp_dirs (snd (lambda_handler stub_env (PDict [(''url'', PStr ''https://youtu.be/abc123'')]) world0)) = {}
   \<and> effects (snd (lambda_handler stub_env (PDict [(''url'', PStr ''https://youtu.be/abc123'')]) world0)) =
       [CallExtractInfo (PDict [(''quiet'', PBool True), (''no_warnings'', PBool True)])
          (PStr ''https://youtu.be/abc123'') False]"
proof -
  let ?kv = "[(''url'', PStr ''https://youtu.be/abc123'')]"
  have h1: "parse_body stub_env (PDict ?kv) = Inr (PDict ?kv)"
    by (simp add: parse_body_def dict_get_def)
  have h2: "dict_get ?kv ''url'' PNone = PStr ''https://youtu.be/abc123''"
    by (simp add: dict_get_def)
  have h3: "truthy (PStr ''https://youtu.be/abc123'')" by simp
  have h4: "is_youtube_url (PStr ''https://youtu.be/abc123'') = Inr True"
    by (simp add: is_youtube_url_def)
  have h5: "map_of ?kv ''action'' = None \<or> map_of ?kv ''action'' = Some (PStr ''info'')"
    by simp
  show ?thesis
    using info_never_downloads [OF h1 h2 h3 h4 h5, of world0] by (simp add: world0_def)
qed

text \<open>
  C6. When the parsed body has no url (no key, \<^verbatim>\<open>None\<close>, or the empty string) the
  handler answers 400 with the error \<open>URL is required\<close> and leaves the world as it
  was: the library is not called.
\<close>

theorem url_required:
  assumes "parse_body env event = Inr (PDict kv)"
      and "map_of kv ''url'' = None \<or> map_of kv ''url'' = Some PNone \<or>
           map_of kv ''url'' = Some (PStr [])"
  shows "lambda_handler env event w =
           (Inr \<lparr>statusCode = 400, headers = [(''Content-Type'', ''application/json'')],
                 body = json_dumps (PDict [(''error'', PStr ''URL is required'')])\<rparr>, w)"
proof -
  have "\<not> truthy (dict_get kv ''url'' PNone)"
    using assms(2) by (auto simp: dict_get_def)
  then have "lambda_handler_try env event w = (Inr (error_response 400 ''URL is required''), w)"
    by (simp add: try_on_dict [OF assms(1)])
  then show ?thesis
    by (simp add: handler_of_response error_response_def json_headers_def)
qed

theorem url_required_witness:
  "lambda_handler (stub_env\<lparr>e_loads := (\<lambda>s. Inr (PDict [(''url'', PStr []), (''action'', PStr ''download'')]))\<rparr>)
     (PDict [(''body'', PStr ''{\"url\": \"\", \"action\": \"download\"}'')]) world0 =
     (Inr \<lparr>statusCode = 400, headers = [(''Content-Type'', ''application/json'')],
           body = json_dumps (PDict [(''error'', PStr ''URL is required'')])\<rparr>, world0)"
proof -
  let ?env = "stub_env\<lparr>e_loads := (\<lambda>s. Inr (PDict [(''url'', PStr []), (''action'', PStr ''download'')]))\<rparr>"
  let ?kv = "[(''url'', PStr []), (''action'', PStr ''download'')]"
  have h1: "parse_body ?env (PDict [(''body'', PStr ''{\"url\": \"\", \"action\": \"download\"}'')]) =
      Inr (PDict ?kv)"
    by (simp add: parse_body_def dict_get_def json_loads_def)
  have h2: "map_of ?kv ''url'' = None \<or> map_of ?kv ''url'' = Some PNone \<or>
            map_of ?kv ''url'' = Some (PStr [])"
    by simp
  show ?thesis
    using url_required [OF h1 h2, of world0] by simp
qed

text \<open>
  C7. A url that is a non-empty string containing neither \<open>youtube.com\<close> nor
  \<open>youtu.be\<close> anywhere is answered with 400 and the error \<open>Invalid YouTube URL\<close>,
  the world unchanged; a url containing one of them passes the check, the handler
  going on to the dispatch on \<open>action\<close>.
\<close>

theorem invalid_youtube_url:
  assumes "parse_body env event = Inr (PDict kv)"
      and "map_of kv ''url'' = Some (PStr u)"
      and "u \<noteq> []"
  shows "((\<nexists>p s. u = p @ ''youtube.com'' @ s) \<and> (\<nexists>p s. u = p @ ''youtu.be'' @ s) \<longrightarrow>
            lambda_handler env event w =
              (Inr \<lparr>statusCode = 400, headers = [(''Content-Type'', ''application/json'')],
                    body = json_dumps (PDict [(''error'', PStr ''Invalid YouTube URL'')])\<rparr>, w))
       \<and> ((\<exists>p s. u = p @ ''youtube.com'' @ s) \<or> (\<exists>p s. u = p @ ''youtu.be'' @ s) \<longrightarrow>
            is_youtube_url (PStr u) = Inr True \<and>
            lambda_handler_try env event w =
              dispatch env (dict_get kv ''action'' (PStr ''info'')) (PStr u)
                (dict_get kv ''format'' (PStr ''mp4'')) w)"
proof -
  have url: "dict_get kv ''url'' PNone = PStr u"
    using assms(2) by (simp add: dict_get_def)
  have marker: "is_youtube_url (PStr u) =
      Inr ((\<exists>p s. u = p @ ''youtube.com'' @ s) \<or> (\<exists>p s. u = p @ ''youtu.be'' @ s))"
    by (simp only: is_youtube_url_str str_contains_iff)
  show ?thesis
  proof (intro conjI impI)
    assume "(\<nexists>p s. u = p @ ''youtube.com'' @ s) \<and> (\<nexists>p s. u = p @ ''youtu.be'' @ s)"
    then have "is_youtube_url (PStr u) = Inr False"
      by (simp add: marker)
    then have "lambda_handler_try env event w =
        (Inr (error_response 400 ''Invalid YouTube URL''), w)"
      using assms(3) by (simp add: try_on_dict [OF assms(1)] url)
    then show "lambda_handler env event w =
        (Inr \<lparr>statusCode = 400, headers = [(''Content-Type'', ''application/json'')],
              body = json_dumps (PDict [(''error'', PStr ''Invalid YouTube URL'')])\<rparr>, w)"
      by (simp add: handler_of_response error_response_def json_headers_def)
  next
    assume "(\<exists>p s. u = p @ ''youtube.com'' @ s) \<or> (\<exists>p s. u = p @ ''youtu.be'' @ s)"
    then show valid: "is_youtube_url (PStr u) = Inr True"
      by (simp add: marker)
    then show "lambda_handler_try env event w =
        dispatch env (dict_get kv ''action'' (PStr ''info'')) (PStr u)
          (dict_get kv ''format'' (PStr ''mp4'')) w"
      using assms(3) by (simp add: try_on_dict [OF assms(1)] url)
  qed
qed

theorem invalid_youtube_url_witness:
  "lambda_handler stub_env (request ''not-a-video-url'' ''info'') world0 =
     (Inr \<lparr>statusCode = 400, headers = [(''Content-Type'', ''application/json'')],
           body = json_dumps (PDict [(''error'', PStr ''Invalid YouTube URL'')])\<rparr>, world0)
   \<and> is_youtube_url (PStr ''https://youtu.be/abc123'') = Inr True
   \<and> lambda_handler_try stub_env (request ''https://youtu.be/abc123'' ''info'') world0 =
       dispatch stub_env (PStr ''info'') (PStr ''https://youtu.be/abc123'') (PStr ''mp4'') world0"
proof -
  let ?kv = "[(''url'', PStr ''not-a-video-url''), (''action'', PStr ''info'')]"
  have h1: "parse_body stub_env (request ''not-a-video-url'' ''info'') = Inr (PDict ?kv)"
    by (simp add: parse_body_def request_def dict_get_def)
  have h2: "map_of ?kv ''url'' = Some (PStr ''not-a-video-url'')" by simp
  have h3: "''not-a-video-url'' \<noteq> []" by simp
  have "\<not> str_contains ''youtube.com'' ''not-a-video-url''"
       "\<not> str_contains ''youtu.be'' ''not-a-video-url''"
    by simp_all
  then have h4: "(\<nexists>p s. ''not-a-video-url'' = p @ ''youtube.com'' @ s) \<and>
                 (\<nexists>p s. ''not-a-video-url'' = p @ ''youtu.be'' @ s)"
    by (simp add: str_contains_iff)
  have rejected: "lambda_handler stub_env (request ''not-a-video-url'' ''info'') world0 =
     (Inr \<lparr>statusCode = 400, headers = [(''Content-Type'', ''application/json'')],
           body = json_dumps (PDict [(''error'', PStr ''Invalid YouTube URL'')])\<rparr>, world0)"
    using invalid_youtube_url [OF h1 h2 h3, of world0] h4 by blast
  let ?kv' = "[(''url'', PStr ''https://youtu.be/abc123''), (''action'', PStr ''info'')]"
  have g1: "parse_body stub_env (request ''https://youtu.be/abc123'' ''info'') = Inr (PDict ?kv')"
    by (simp add: parse_body_def request_def dict_get_def)
  have g2: "map_of ?kv' ''url'' = Some (PStr ''https://youtu.be/abc123'')" by simp
  have g3: "''https://youtu.be/abc123'' \<noteq> []" by simp
  have "str_contains ''youtu.be'' ''https://youtu.be/abc123''" by simp
  then have g4: "\<exists>p s. ''https://youtu.be/abc123'' = p @ ''youtu.be'' @ s"
    by (simp only: str_contains_iff)
  have accepted: "is_youtube_url (PStr ''https://youtu.be/abc123'') = Inr True \<and>
      lambda_handler_try stub_env (request ''https://youtu.be/abc123'' ''info'') world0 =
        dispatch stub_env (dict_get ?kv' ''action'' (PStr ''info'')) (PStr ''https://youtu.be/abc123'')
          (dict_get ?kv' ''format'' (PStr ''mp4'')) world0"
    using invalid_youtube_url [OF g1 g2 g3, of world0] g4 by blast
  have "dict_get ?kv' ''action'' (PStr ''info'') = PStr ''info''"
       "dict_get ?kv' ''format'' (PStr ''mp4'') = PStr ''mp4''"
    by (simp_all add: dict_get_def)
  with rejected accepted show ?thesis by simp
qed

text \<open>
  C8, as amended. On a request whose url is present and has passed the marker check,
  every action other than \<open>info\<close> and \<open>download\<close> is answered with 400 and the
  error \<open>Invalid action\<close>, the world unchanged: the library is not called.
\<close>

theorem invalid_action:
  assumes "parse_body env event = Inr (PDict kv)"
      and "dict_get kv ''url'' PNone = url"
      and "truthy url"
      and "is_youtube_url url = Inr True"
      and "dict_get kv ''action'' (PStr ''info'') = action"
      and "action \<noteq> PStr ''info''"
      and "action \<noteq> PStr ''download''"
  shows "lambda_handler env event w =
           (Inr \<lparr>statusCode = 400, headers = [(''Content-Type'', ''application/json'')],
                 body = json_dumps (PDict [(''error'', PStr ''Invalid action'')])\<rparr>, w)"
proof -
  have "lambda_handler_try env event w = (Inr (error_response 400 ''Invalid action''), w)"
    using assms(2-7) by (simp add: try_on_dict [OF assms(1)] dispatch_def)
  then show ?thesis
    by (simp add: handler_of_response error_response_def json_headers_def)
qed

theorem invalid_action_witness:
  "lambda_handler stub_env (request ''https://www.youtube.com/watch?v=abc123'' ''delete'') world0 =
     (Inr \<lparr>statusCode = 400, headers = [(''Content-Type'', ''application/json'')],
           body = json_dumps (PDict [(''error'', PStr ''Invalid action'')])\<rparr>, world0)"
proof -
  let ?url = "''https://www.youtube.com/watch?v=abc123''"
  let ?kv = "[(''url'', PStr ?url), (''action'', PStr ''delete'')]"
  have h1: "parse_body stub_env (request ?url ''delete'') = Inr (PDict ?kv)"
    by (simp add: parse_body_def request_def dict_get_def)
  have h2: "dict_get ?kv ''url'' PNone = PStr ?url" by (simp add: dict_get_def)
  have h3: "truthy (PStr ?url)" by simp
  have h4: "is_youtube_url (PStr ?url) = Inr True" by (simp add: is_youtube_url_def)
  have h5: "dict_get ?kv ''action'' (PStr ''info'') = PStr ''delete''" by (simp add: dict_get_def)
  have h6: "PStr ''delete'' \<noteq> PStr ''info''" by simp
  have h7: "PStr ''delete'' \<noteq> PStr ''download''" by simp
  show ?thesis
    using invalid_action [OF h1 h2 h3 h4 h5 h6 h7, of world0] by simp
qed

text \<open>
  The claim as written, for every action outside \<open>info\<close> and \<open>download\<close> whatever
  the rest of the request, fails on a request with action \<open>delete\<close> and no url: the
  check of line 16 comes first and the answer is \<open>URL is required\<close>.
\<close>

theorem invalid_action_needs_url:
  "dict_get [(''action'', PStr ''delete'')] ''action'' (PStr ''info'') = PStr ''delete''
   \<and> lambda_handler stub_env (PDict [(''action'', PStr ''delete'')]) world0 =
     (Inr \<lparr>statusCode = 400, headers = [(''Content-Type'', ''application/json'')],
           body = json_dumps (PDict [(''error'', PStr ''URL is required'')])\<rparr>, world0)
   \<and> fst (lambda_handler stub_env (PDict [(''action'', PStr ''delete'')]) world0) \<noteq>
     Inr \<lparr>statusCode = 400, headers = [(''Content-Type'', ''application/json'')],
          body = json_dumps (PDict [(''error'', PStr ''Invalid action'')])\<rparr>"
  by (simp add: lambda_handler_def lambda_handler_try_def parse_body_def dict_get_def
      error_response_def json_headers_def)





text \<open>
  C10. The checks run in the order url presence, host marker, action. Whatever the
  action, a request without a url is answered \<open>URL is required\<close> and a request whose
  url contains no marker is answered \<open>Invalid YouTube URL\<close>; and the answer
  \<open>Invalid action\<close> is given only when the url is present, has passed the marker check
  and the action is neither \<open>info\<close> nor \<open>download\<close>.
\<close>

theorem check_precedence:
  "(parse_body env event = Inr (PDict kv) \<and> \<not> truthy (dict_get kv ''url'' PNone) \<longrightarrow>
      lambda_handler env event w =
        (Inr \<lparr>statusCode = 400, headers = [(''Content-Type'', ''application/json'')],
              body = json_dumps (PDict [(''error'', PStr ''URL is required'')])\<rparr>, w))
   \<and> (parse_body env event = Inr (PDict kv) \<and> dict_get kv ''url'' PNone = PStr u \<and> u \<noteq> [] \<and>
        \<not> str_contains ''youtube.com'' u \<and> \<not> str_contains ''youtu.be'' u \<longrightarrow>
      lambda_handler env event w =
        (Inr \<lparr>statusCode = 400, headers = [(''Content-Type'', ''application/json'')],
              body = json_dumps (PDict [(''error'', PStr ''Invalid YouTube URL'')])\<rparr>, w))
   \<and> (fst (lambda_handler env event w) =
         Inr \<lparr>statusCode = 400, headers = [(''Content-Type'', ''application/json'')],
              body = json_dumps (PDict [(''error'', PStr ''Invalid action'')])\<rparr> \<longrightarrow>
       (\<exists>kv'. parse_body env event = Inr (PDict kv') \<and>
              truthy (dict_get kv' ''url'' PNone) \<and>
              is_youtube_url (dict_get kv' ''url'' PNone) = Inr True \<and>
              dict_get kv' ''action'' (PStr ''info'') \<noteq> PStr ''info'' \<and>
              dict_get kv' ''action'' (PStr ''info'') \<noteq> PStr ''download''))"
proof (intro conjI impI)
  assume "parse_body env event = Inr (PDict kv) \<and> \<not> truthy (dict_get kv ''url'' PNone)"
  then have "lambda_handler_try env event w = (Inr (error_response 400 ''URL is required''), w)"
    by (simp add: try_on_dict)
  then show "lambda_handler env event w =
      (Inr \<lparr>statusCode = 400, headers = [(''Content-Type'', ''application/json'')],
            body = json_dumps (PDict [(''error'', PStr ''URL is required'')])\<rparr>, w)"
    by (simp add: handler_of_response error_response_def json_headers_def)
next
  assume "parse_body env event = Inr (PDict kv) \<and> dict_get kv ''url'' PNone = PStr u \<and> u \<noteq> [] \<and>
        \<not> str_contains ''youtube.com'' u \<and> \<not> str_contains ''youtu.be'' u"
  then have "lambda_handler_try env event w = (Inr (error_response 400 ''Invalid YouTube URL''), w)"
    by (simp add: try_on_dict is_youtube_url_str)
  then show "lambda_handler env event w =
      (Inr \<lparr>statusCode = 400, headers = [(''Content-Type'', ''application/json'')],
            body = json_dumps (PDict [(''error'', PStr ''Invalid YouTube URL'')])\<rparr>, w)"
    by (simp add: handler_of_response error_response_def json_headers_def)
next
  let ?r = "\<lparr>statusCode = 400, headers = [(''Content-Type'', ''application/json'')],
              body = json_dumps (PDict [(''error'', PStr ''Invalid action'')])\<rparr>"
  assume "fst (lambda_handler env event w) = Inr ?r"
  then have returned: "fst (lambda_handler_try env event w) = Inr ?r"
    by (auto simp: handler_fst error_response_def split: sum.splits if_splits)
  then obtain kv' where parsed: "parse_body env event = Inr (PDict kv')"
    using try_returns_on_dict by blast
  let ?url = "dict_get kv' ''url'' PNone"
  let ?action = "dict_get kv' ''action'' (PStr ''info'')"
  have present: "truthy ?url"
    using returned by (auto simp: try_on_dict [OF parsed] error_response_def split: if_splits)
  have valid: "is_youtube_url ?url = Inr True"
    using returned present
    by (auto simp: try_on_dict [OF parsed] error_response_def split: if_splits sum.splits)
  have "fst (dispatch env ?action ?url (dict_get kv' ''format'' (PStr ''mp4'')) w) = Inr ?r"
    using returned present valid by (simp add: try_on_dict [OF parsed])
  then have "?action \<noteq> PStr ''info'' \<and> ?action \<noteq> PStr ''download''"
    by (rule dispatch_status_400) simp
  with parsed present valid
  show "\<exists>kv'. parse_body env event = Inr (PDict kv') \<and>
              truthy (dict_get kv' ''url'' PNone) \<and>
              is_youtube_url (dict_get kv' ''url'' PNone) = Inr True \<and>
              dict_get kv' ''action'' (PStr ''info'') \<noteq> PStr ''info'' \<and>
              dict_get kv' ''action'' (PStr ''info'') \<noteq> PStr ''download''"
    by blast
qed

theorem check_precedence_witness:
  "lambda_handler stub_env (PDict [(''action'', PStr ''delete'')]) world0 =
     (Inr \<lparr>statusCode = 400, headers = [(''Content-Type'', ''application/json'')],
           body = json_dumps (PDict [(''error'', PStr ''URL is required'')])\<rparr>, world0)
   \<and> lambda_handler stub_env (request ''not-a-video-url'' ''delete'') world0 =
     (Inr \<lparr>statusCode = 400, headers = [(''Content-Type'', ''application/json'')],
           body = json_dumps (PDict [(''error'', PStr ''Invalid YouTube URL'')])\<rparr>, world0)
   \<and> (\<exists>kv'. parse_body stub_env (request ''https://youtu.be/abc123'' ''delete'') = Inr (PDict kv') \<and>
            truthy (dict_get kv' ''url'' PNone) \<and>
            is_youtube_url (dict_get kv' ''url'' PNone) = Inr True \<and>
            dict_get kv' ''action'' (PStr ''info'') \<noteq> PStr ''info'' \<and>
            dict_get kv' ''action'' (PStr ''info'') \<noteq> PStr ''download'')"
proof (intro conjI)
  let ?kv1 = "[(''action'', PStr ''delete'')]"
  have "parse_body stub_env (PDict ?kv1) = Inr (PDict ?kv1) \<and> \<not> truthy (dict_get ?kv1 ''url'' PNone)"
    by (simp add: parse_body_def dict_get_def)
  then show "lambda_handler stub_env (PDict ?kv1) world0 =
     (Inr \<lparr>statusCode = 400, headers = [(''Content-Type'', ''application/json'')],
           body = json_dumps (PDict [(''error'', PStr ''URL is required'')])\<rparr>, world0)"
    using check_precedence [where env = stub_env and event = "PDict ?kv1" and kv = ?kv1
        and w = world0]
    by blast
next
  let ?kv2 = "[(''url'', PStr ''not-a-video-url''), (''action'', PStr ''delete'')]"
  have "parse_body stub_env (request ''not-a-video-url'' ''delete'') = Inr (PDict ?kv2) \<and>
        dict_get ?kv2 ''url'' PNone = PStr ''not-a-video-url'' \<and> ''not-a-video-url'' \<noteq> [] \<and>
        \<not> str_contains ''youtube.com'' ''not-a-video-url'' \<and>
        \<not> str_contains ''youtu.be'' ''not-a-video-url''"
    by (simp add: parse_body_def request_def dict_get_def)
  then show "lambda_handler stub_env (request ''not-a-video-url'' ''delete'') world0 =
     (Inr \<lparr>statusCode = 400, headers = [(''Content-Type'', ''application/json'')],
           body = json_dumps (PDict [(''error'', PStr ''Invalid YouTube URL'')])\<rparr>, world0)"
    using check_precedence [where env = stub_env
        and event = "request ''not-a-video-url'' ''delete''" and kv = ?kv2
        and u = "''not-a-video-url''" and w = world0]
    by blast
next
  have "fst (lambda_handler stub_env (request ''https://youtu.be/abc123'' ''delete'') world0) =
      Inr \<lparr>statusCode = 400, headers = [(''Content-Type'', ''application/json'')],
           body = json_dumps (PDict [(''error'', PStr ''Invalid action'')])\<rparr>"
    by (simp add: lambda_handler_def lambda_handler_try_def parse_body_def request_def dict_get_def
        is_youtube_url_def dispatch_def error_response_def json_headers_def)
  then show "\<exists>kv'. parse_body stub_env (request ''https://youtu.be/abc123'' ''delete'') = Inr (PDict kv') \<and>
            truthy (dict_get kv' ''url'' PNone) \<and>
            is_youtube_url (dict_get kv' ''url'' PNone) = Inr True \<and>
            dict_get kv' ''action'' (PStr ''info'') \<noteq> PStr ''info'' \<and>
            dict_get kv' ''action'' (PStr ''info'') \<noteq> PStr ''download''"
    using check_precedence [where env = stub_env
        and event = "request ''https://youtu.be/abc123'' ''delete''" and w = world0]
    by blast
qed

end
